theory Spec2Isabelle
  imports Main "HOL-Library.Word"
begin

section \<open>Values\<close>

text \<open>
  The service is one Go file, \<^verbatim>\<open>app.go\<close>. Go's \<^verbatim>\<open>int64\<close> (and \<^verbatim>\<open>int\<close> on the 64-bit
  targets the image is built for) is a 64-bit word read in two's complement:
  \<open>*\<close> wraps around, \<open><s\<close> and \<open>\<le>s\<close> compare signed, \<open>sint\<close> reads the value.
  A byte is a \<open>char\<close>, a \<^verbatim>\<open>[]byte\<close> and a Go string are a \<open>string\<close>.
\<close>

type_synonym int64 = "64 word"

text \<open>
  What stops a handler before it returns: a run-time panic, with the place it comes
  from, or the fatal error of a process that cannot get the memory it asks for.
\<close>

datatype panic =
  MakesliceLenOutOfRange
  | OutOfMemory
  | InvalidWriteHeaderCode int64

section \<open>The payload generator\<close>

text \<open>
  \<^verbatim>\<open>charset := "-ABCDEFGHIJKLMNOPQRSTUVWXYZ"\<close> (app.go, line 291).
\<close>

definition charset :: string where
  "charset = ''-ABCDEFGHIJKLMNOPQRSTUVWXYZ''"

text \<open>
  \<^verbatim>\<open>for i := range b { b[i] = charset[i%len(charset)] }\<close>: the buffer is updated in
  place, one index after the other.
\<close>

definition fill_range :: "string \<Rightarrow> string" where
  "fill_range b = fold (\<lambda>i b. b[i := charset ! (i mod length charset)]) [0..<length b] b"

text \<open>
  \<^verbatim>\<open>make([]byte, length)\<close>. The run time panics (\<^verbatim>\<open>makeslice: len out of range\<close>) on a
  negative length and on one above \<open>maxAlloc\<close>, its bound for a single allocation:
  \<open>2^48\<close> bytes on the 64-bit Linux targets the image is built for. Below that bound
  the allocation needs the memory to be there: \<open>avail\<close> is the number of bytes the
  process can get at the time of the call, and a longer buffer ends the process. A
  buffer that is granted holds zero bytes.
\<close>

definition maxAlloc :: nat where
  "maxAlloc = 2 ^ 48"

definition make_bytes :: "nat \<Rightarrow> int64 \<Rightarrow> panic + string" where
  "make_bytes avail n =
     (if n <s 0 \<or> maxAlloc < unat n then Inl MakesliceLenOutOfRange
      else if avail < unat n then Inl OutOfMemory
      else Inr (replicate (unat n) (CHR 0x00)))"

text \<open>
  \<^verbatim>\<open>fillContent(length int64)\<close>, in a process that can get \<open>avail\<close> bytes. The two
  sentinel stores happen only when \<open>length > 0\<close>; the result is the content of the
  reader that the function returns.
\<close>

definition fillContent :: "nat \<Rightarrow> int64 \<Rightarrow> panic + string" where
  "fillContent avail n =
     (case make_bytes avail n of
        Inl p \<Rightarrow> Inl p
      | Inr b \<Rightarrow>
          let b = fill_range b;
              b = (if 0 <s n then (b[0 := CHR ''|''])[unat (n - 1) := CHR ''|''] else b)
          in Inr b)"

text \<open>
  The generator in closed form, following the specification's words: byte \<open>i\<close> of a
  payload of \<open>n\<close> bytes is the sentinel at both ends and \<open>charset[i mod 27]\<close> between.
\<close>

definition pattern :: "nat \<Rightarrow> nat \<Rightarrow> char" where
  "pattern n i = (if i = 0 \<or> Suc i = n then CHR ''|'' else charset ! (i mod 27))"

section \<open>Library functions the handlers call\<close>

text \<open>
  The handlers call into Go's standard library. Each call is modelled by what the
  library documents for it, as far as a handler of \<^verbatim>\<open>app.go\<close> can observe; console
  output (\<^verbatim>\<open>fmt.Printf\<close>, \<^verbatim>\<open>log.Println\<close>) is left out.
\<close>

subsection \<open>strconv\<close>

datatype num_error = ErrSyntax | ErrRange

definition is_digit :: "char \<Rightarrow> bool" where
  "is_digit c \<longleftrightarrow> (48 :: nat) \<le> of_char c \<and> of_char c \<le> (57 :: nat)"

definition digit_val :: "char \<Rightarrow> nat" where
  "digit_val c = of_char c - 48"

text \<open>
  \<^verbatim>\<open>strconv.ParseUint(s, 10, 64)\<close>: the digits are read from the left; a byte that is no
  decimal digit is a syntax error, a value past \<open>2^64 - 1\<close> a range error, whichever
  comes first.
\<close>

definition maxVal :: nat where
  "maxVal = 2 ^ 64 - 1"

fun ParseUint_loop :: "nat \<Rightarrow> string \<Rightarrow> num_error + nat" where
  "ParseUint_loop n [] = Inr n"
| "ParseUint_loop n (c # cs) =
     (if \<not> is_digit c then Inl ErrSyntax
      else if n \<ge> maxVal div 10 + 1 then Inl ErrRange
      else if n * 10 + digit_val c > maxVal then Inl ErrRange
      else ParseUint_loop (n * 10 + digit_val c) cs)"

definition ParseUint :: "string \<Rightarrow> num_error + nat" where
  "ParseUint s = (if s = [] then Inl ErrSyntax else ParseUint_loop 0 s)"

text \<open>
  \<^verbatim>\<open>strconv.ParseInt(s, 10, 64)\<close>: an optional sign, then \<^verbatim>\<open>ParseUint\<close>; the magnitude
  must fit the signed range. A range error of \<^verbatim>\<open>ParseUint\<close> stays a range error.
\<close>

definition ParseInt :: "string \<Rightarrow> num_error + int64" where
  "ParseInt s =
     (if s = [] then Inl ErrSyntax
      else
        let neg = (hd s = CHR ''-'');
            s' = (if hd s = CHR ''+'' \<or> hd s = CHR ''-'' then tl s else s)
        in case ParseUint s' of
             Inl e \<Rightarrow> Inl e
           | Inr un \<Rightarrow>
               if \<not> neg \<and> un \<ge> 2 ^ 63 then Inl ErrRange
               else if neg \<and> un > 2 ^ 63 then Inl ErrRange
               else Inr (if neg then - of_nat un else of_nat un))"

text \<open>\<^verbatim>\<open>strconv.FormatInt(c, 10)\<close>, which is also how \<^verbatim>\<open>encoding/json\<close> writes an integer.\<close>

fun show_nat :: "nat \<Rightarrow> string" where
  "show_nat n =
     (if n < 10 then [''0123456789'' ! n]
      else show_nat (n div 10) @ [''0123456789'' ! (n mod 10)])"

declare show_nat.simps [simp del]

definition FormatInt :: "int64 \<Rightarrow> string" where
  "FormatInt c =
     (if c <s 0 then CHR ''-'' # show_nat (nat (- sint c)) else show_nat (nat (sint c)))"

text \<open>
  \<^verbatim>\<open>strconv.ParseBool\<close> accepts exactly these twelve spellings.
\<close>

definition ParseBool :: "string \<Rightarrow> num_error + bool" where
  "ParseBool s =
     (if s \<in> set [''1'', ''t'', ''T'', ''TRUE'', ''true'', ''True''] then Inr True
      else if s \<in> set [''0'', ''f'', ''F'', ''FALSE'', ''false'', ''False''] then Inr False
      else Inl ErrSyntax)"

subsection \<open>strings\<close>

text \<open>
  \<^verbatim>\<open>strings.ToLower\<close> on the bytes of a UTF-8 string. ASCII capitals map to their small
  letters. The Kelvin sign (U+212A, the bytes E2 84 AA) maps to \<open>k\<close>; it is the only
  rune outside ASCII whose lower case is a letter of the unit names that the data
  handler compares with. Every other byte outside ASCII is kept as it is: Go may
  change it, but to bytes outside ASCII again, so the comparisons come out the same.
\<close>

definition lower :: "char \<Rightarrow> char" where
  "lower c =
     (case map_of (zip ''ABCDEFGHIJKLMNOPQRSTUVWXYZ'' ''abcdefghijklmnopqrstuvwxyz'') c of
        Some l \<Rightarrow> l
      | None \<Rightarrow> c)"

fun ToLower :: "string \<Rightarrow> string" where
  "ToLower [] = []"
| "ToLower (c # cs) =
     (if c = CHR 0xE2 \<and> take 2 cs = [CHR 0x84, CHR 0xAA] then CHR ''k'' # ToLower (drop 2 cs)
      else lower c # ToLower cs)"

subsection \<open>encoding/json\<close>

text \<open>
  The error of a failed call. The text of an error (\<^verbatim>\<open>err.Error()\<close>) is not modelled:
  a response that carries it holds the error itself.
\<close>

datatype go_error =
  EOF
  | JSONError
  | WriteError

definition isSpace :: "char \<Rightarrow> bool" where
  "isSpace c \<longleftrightarrow> c \<in> set [CHR '' '', CHR 0x09, CHR 0x0D, CHR 0x0A]"

text \<open>
  \<^verbatim>\<open>json.NewDecoder(body).Decode(&statusCode)\<close> with \<^verbatim>\<open>var statusCode int\<close>, called once on
  a fresh decoder. The decoder skips white space and reads one JSON value; bytes after
  that value are left in the stream unread.
  \<^item> Nothing but white space: \<^verbatim>\<open>io.EOF\<close>.
  \<^item> \<^verbatim>\<open>null\<close>: no error, and the variable keeps its zero value (the package documents
    that a JSON null has no effect on a value of such a type and produces no error).
  \<^item> A number whose text is an integer literal (\<open>-?(0|[1-9][0-9]*)\<close>, not followed by
    a fraction or an exponent): \<^verbatim>\<open>strconv.ParseInt\<close> of the literal, an error when it is
    out of range.
  \<^item> Anything else (a number with fraction or exponent, a string, \<^verbatim>\<open>true\<close>, \<^verbatim>\<open>false\<close>,
    an array, an object, a truncated or malformed value): an error, here \<open>JSONError\<close>
    for every kind (\<^verbatim>\<open>SyntaxError\<close>, \<^verbatim>\<open>UnmarshalTypeError\<close>, \<^verbatim>\<open>io.ErrUnexpectedEOF\<close>).
\<close>

definition int_literal :: "string \<Rightarrow> (string \<times> string) option" where
  "int_literal s =
     (let sign = (if s \<noteq> [] \<and> hd s = CHR ''-'' then ''-'' else []);
          r = drop (length sign) s
      in if r = [] \<or> \<not> is_digit (hd r) then None
         else if hd r = CHR ''0'' then Some (sign @ ''0'', tl r)
         else Some (sign @ takeWhile is_digit r, dropWhile is_digit r))"

definition Decode_int :: "string \<Rightarrow> go_error + int64" where
  "Decode_int body =
     (let s = dropWhile isSpace body
      in if s = [] then Inl EOF
         else if hd s = CHR ''n'' then (if take 4 s = ''null'' then Inr 0 else Inl JSONError)
         else case int_literal s of
                None \<Rightarrow> Inl JSONError
              | Some (lit, rest) \<Rightarrow>
                  if rest \<noteq> [] \<and> hd rest \<in> set [CHR ''.'', CHR ''e'', CHR ''E''] then Inl JSONError
                  else (case ParseInt lit of Inl e \<Rightarrow> Inl JSONError | Inr c \<Rightarrow> Inr c))"

text \<open>
  The first byte of a body after the white space decides much: a byte that is no
  digit, no minus sign and no \<open>n\<close> begins no integer literal and no \<^verbatim>\<open>null\<close>.
\<close>

definition begins_no_number :: "string \<Rightarrow> bool" where
  "begins_no_number body =
     (let s = dropWhile isSpace body
      in s = [] \<or> (\<not> is_digit (hd s) \<and> hd s \<noteq> CHR ''-'' \<and> hd s \<noteq> CHR ''n''))"

subsection \<open>net/http\<close>

text \<open>
  A request, as far as the handlers read it: the method, the path the multiplexer
  routes on, the query parameters in their order (\<^verbatim>\<open>u.Query()\<close>), and the body.
\<close>

record request =
  Method :: string
  Path :: string
  Query :: "(string \<times> string) list"
  Body :: string

text \<open>\<^verbatim>\<open>url.Values.Get\<close>: the first value of the key, the empty string when it has none.\<close>

definition Get :: "(string \<times> string) list \<Rightarrow> string \<Rightarrow> string" where
  "Get q k = (case map_of q k of Some v \<Rightarrow> v | None \<Rightarrow> [])"

text \<open>
  What a handler has done to its \<^verbatim>\<open>http.ResponseWriter\<close>: the header map, the
  informational (1xx) status lines already sent, the final status once it is fixed,
  and what was written to the body, in order.
\<close>

datatype chunk = Bytes string | ErrorText go_error

record ResponseWriter =
  Header :: "string \<rightharpoonup> string"
  informational :: "int64 list"
  status :: "int64 option"
  written :: "chunk list"

definition new_writer :: ResponseWriter where
  "new_writer = \<lparr>Header = Map.empty, informational = [], status = None, written = []\<rparr>"

text \<open>
  \<^verbatim>\<open>w.WriteHeader(code)\<close> (net/http of Go 1.19 and later), whose argument must be a
  valid status code. A second call is ignored. A code that has not three digits, one
  outside \<open>100..999\<close>, panics (\<^verbatim>\<open>invalid WriteHeader code\<close>). A code in \<open>100..199\<close> other
  than 101 is sent at once as an informational response and does not fix the final
  status. Any other code is the status of the response.
\<close>

definition WriteHeader :: "int64 \<Rightarrow> ResponseWriter \<Rightarrow> panic + ResponseWriter" where
  "WriteHeader code w =
     (if status w \<noteq> None then Inr w
      else if code <s 100 \<or> 999 <s code then Inl (InvalidWriteHeaderCode code)
      else if 100 \<le>s code \<and> code \<le>s 199 \<and> code \<noteq> 101
        then Inr (w\<lparr>informational := informational w @ [code]\<rparr>)
      else Inr (w\<lparr>status := Some code\<rparr>))"

text \<open>
  \<^verbatim>\<open>w.Write\<close>: the first write fixes the status to 200 when no \<^verbatim>\<open>WriteHeader\<close> did. The
  client is taken to stay connected, so a write does not fail.
\<close>

definition Write :: "chunk \<Rightarrow> ResponseWriter \<Rightarrow> ResponseWriter" where
  "Write c w =
     w\<lparr>status := (if status w = None then Some 200 else status w), written := written w @ [c]\<rparr>"

text \<open>
  \<^verbatim>\<open>http.Error(w, text, code)\<close>: two header fields, the status, then the text and a
  line feed (\<^verbatim>\<open>fmt.Fprintln\<close>).
\<close>

definition http_Error :: "ResponseWriter \<Rightarrow> chunk \<Rightarrow> int64 \<Rightarrow> panic + ResponseWriter" where
  "http_Error w msg code =
     (let w = w\<lparr>Header := (Header w)(''Content-Length'' := None,
                  ''Content-Type'' \<mapsto> ''text/plain; charset=utf-8'',
                  ''X-Content-Type-Options'' \<mapsto> ''nosniff'')\<rparr>
      in case WriteHeader code w of
           Inl p \<Rightarrow> Inl p
         | Inr w \<Rightarrow> Inr (Write (Bytes [CHR 0x0A]) (Write msg w)))"

text \<open>
  \<^verbatim>\<open>io.Copy(w, content)\<close>: one write of the whole content, none when it is empty. The
  second component is the error that \<^verbatim>\<open>io.Copy\<close> returns.
\<close>

definition io_Copy :: "ResponseWriter \<Rightarrow> string \<Rightarrow> ResponseWriter \<times> go_error option" where
  "io_Copy w content = (if content = [] then w else Write (Bytes content) w, None)"

text \<open>
  What the client gets once the handler has returned: the server recovers a panic of
  the handler and closes the connection without a response, and a process that has
  run out of memory answers nothing; otherwise the response has the status the
  handler fixed, 200 when it fixed none, and the body it wrote.
\<close>

datatype response = Aborted panic | Response int64 "chunk list"

definition finish :: "panic + ResponseWriter \<Rightarrow> response" where
  "finish r =
     (case r of
        Inl p \<Rightarrow> Aborted p
      | Inr w \<Rightarrow> Response (case status w of None \<Rightarrow> 200 | Some c \<Rightarrow> c) (written w))"

section \<open>The health state and its handler\<close>

text \<open>
  \<^verbatim>\<open>currentHealthState = healthState{http.StatusOK}\<close>. The handlers run one after the
  other here; the lock \<^verbatim>\<open>mutexHealthState\<close> that orders them is not part of the model.
\<close>

record healthState =
  StatusCode :: int64

definition currentHealthState :: healthState where
  "currentHealthState = \<lparr>StatusCode = 200\<rparr>"

definition healthHandler ::
  "ResponseWriter \<Rightarrow> request \<Rightarrow> healthState \<Rightarrow> healthState \<times> (panic + ResponseWriter)" where
  "healthHandler w req st =
     (if Method req = ''POST'' then
        (case Decode_int (Body req) of
           Inl err \<Rightarrow> (st, http_Error w (ErrorText err) 400)
         | Inr statusCode \<Rightarrow> (st\<lparr>StatusCode := statusCode\<rparr>, Inr w))
      else (st, WriteHeader (StatusCode st) w))"

text \<open>One exchange with \<^verbatim>\<open>/health\<close> on a fresh response writer.\<close>

definition health :: "request \<Rightarrow> healthState \<Rightarrow> healthState \<times> response" where
  "health req st = (let (st', r) = healthHandler new_writer req st in (st', finish r))"

section \<open>The data handler\<close>

text \<open>\<^verbatim>\<open>KB int64 = 1 << (10 * iota)\<close> and the three constants after it.\<close>

definition KB :: int64 where "KB = push_bit 10 1"
definition MB :: int64 where "MB = push_bit 20 1"
definition GB :: int64 where "GB = push_bit 30 1"
definition TB :: int64 where "TB = push_bit 40 1"

text \<open>
  The variable \<^verbatim>\<open>size\<close> of \<^verbatim>\<open>dataHandler\<close> when it reaches \<^verbatim>\<open>fillContent(size)\<close> (lines
  135 to 153): the parsed parameter, 1 when it does not parse; 0 when negative; then
  the multiplication by the unit, in \<^verbatim>\<open>int64\<close>.
\<close>

definition dataHandler_size :: "request \<Rightarrow> int64" where
  "dataHandler_size r =
     (let size = (case ParseInt (Get (Query r) ''size'') of Inl err \<Rightarrow> 1 | Inr v \<Rightarrow> v);
          size = (if size <s 0 then 0 else size);
          unit = ToLower (Get (Query r) ''unit'')
      in if unit = ''kb'' then size * KB
         else if unit = ''mb'' then size * MB
         else if unit = ''gb'' then size * GB
         else if unit = ''tb'' then size * TB
         else size)"

text \<open>
  \<^verbatim>\<open>dataHandler\<close>, in a process that can get \<open>avail\<close> bytes. \<^verbatim>\<open>http.ServeContent\<close> answers
  from the request's \<^verbatim>\<open>Range\<close> and conditional header fields, with the whole content,
  a part of it or none; the handler only calls it, so it is a parameter here
  (\<open>ServeContent\<close>), applied to the response writer, the request, the file name and
  the content.
\<close>

definition dataHandler ::
  "(ResponseWriter \<Rightarrow> request \<Rightarrow> string \<Rightarrow> string \<Rightarrow> panic + ResponseWriter)
     \<Rightarrow> nat \<Rightarrow> ResponseWriter \<Rightarrow> request \<Rightarrow> panic + ResponseWriter" where
  "dataHandler ServeContent avail w r =
     (let size = dataHandler_size r;
          attachment = (case ParseBool (Get (Query r) ''attachment'') of
                          Inl err \<Rightarrow> False | Inr b \<Rightarrow> b)
      in case fillContent avail size of
           Inl p \<Rightarrow> Inl p
         | Inr content \<Rightarrow>
             if attachment then
               ServeContent (w\<lparr>Header := (Header w)(''Content-Disposition'' \<mapsto> ''Attachment'')\<rparr>)
                 r ''data.txt'' content
             else
               (case io_Copy w content of
                  (w', None) \<Rightarrow> Inr w'
                | (w', Some err) \<Rightarrow> http_Error w' (ErrorText err) 500))"



section \<open>The router\<close>

text \<open>
  \<^verbatim>\<open>main\<close> registers six patterns with the default \<^verbatim>\<open>http.ServeMux\<close> (lines 55 to 60).
  The multiplexer matches a pattern without a slash at its end against the whole
  path, and it redirects a request whose path has \<open>.\<close> or \<open>..\<close> elements or repeated
  slashes to the equivalent clean path before any handler is chosen.
\<close>

datatype handler =
  DataHandler | EchoHandler | BenchHandler | WhoamiHandler | ApiHandler | HealthHandler
  | NotFoundHandler
  | RedirectHandler string
  | BadRequestHandler
  | GlobalOptionsHandler

definition registrations :: "(string \<times> handler) list" where
  "registrations =
     [(''/data'', DataHandler), (''/echo'', EchoHandler), (''/bench'', BenchHandler),
      (''/'', WhoamiHandler), (''/api'', ApiHandler), (''/health'', HealthHandler)]"

text \<open>
  \<^verbatim>\<open>path.Clean\<close> on a rooted path: the elements between slashes are read from the left;
  an empty element and \<open>.\<close> are dropped, \<open>..\<close> removes the element before it (none at
  the root), and what is left is joined by single slashes.
\<close>

fun elements :: "string \<Rightarrow> string list" where
  "elements [] = [[]]"
| "elements (c # cs) =
     (if c = CHR ''/'' then [] # elements cs
      else (case elements cs of [] \<Rightarrow> [[c]] | e # es \<Rightarrow> (c # e) # es))"

definition clean_step :: "string \<Rightarrow> string list \<Rightarrow> string list" where
  "clean_step e kept =
     (if e = [] \<or> e = ''.'' then kept
      else if e = ''..'' then butlast kept
      else kept @ [e])"

fun join_slash :: "string list \<Rightarrow> string" where
  "join_slash [] = []"
| "join_slash [e] = e"
| "join_slash (e # es) = e @ CHR ''/'' # join_slash es"

definition Clean :: "string \<Rightarrow> string" where
  "Clean p = CHR ''/'' # join_slash (fold clean_step (elements p) [])"

text \<open>
  \<^verbatim>\<open>cleanPath\<close> of net/http: the path made rooted and cleaned, with the slash at its end
  put back.
\<close>

definition cleanPath :: "string \<Rightarrow> string" where
  "cleanPath p =
     (if p = [] then ''/''
      else
        let p = (if hd p \<noteq> CHR ''/'' then CHR ''/'' # p else p);
            np = Clean p
        in if last p = CHR ''/'' \<and> np \<noteq> ''/'' then np @ ''/'' else np)"

text \<open>
  \<^verbatim>\<open>ServeMux.match\<close>: a pattern equal to the path wins; otherwise the longest pattern
  that ends in a slash and is a prefix of the path.
\<close>

definition mux_match :: "(string \<times> handler) list \<Rightarrow> string \<Rightarrow> handler option" where
  "mux_match regs path =
     (case map_of regs path of
        Some h \<Rightarrow> Some h
      | None \<Rightarrow>
          map_option snd
            (find (\<lambda>(pat, h). take (length pat) path = pat)
               (sort_key (\<lambda>(pat, h). - int (length pat))
                  (filter (\<lambda>(pat, h). pat \<noteq> [] \<and> last pat = CHR ''/'') regs))))"

text \<open>
  \<^verbatim>\<open>ServeMux.Handler\<close> for patterns without a host. A non-empty path that has no
  pattern of its own while the path with a slash added has one is redirected there.
  A path that differs from its clean form is redirected to the clean form, except for
  the method \<^verbatim>\<open>CONNECT\<close>. A path that no pattern matches gets the not-found handler.
\<close>

definition mux_Handler :: "(string \<times> handler) list \<Rightarrow> 'a request_scheme \<Rightarrow> handler" where
  "mux_Handler regs r =
     (let path = (if Method r = ''CONNECT'' then Path r else cleanPath (Path r))
      in if map_of regs path = None \<and> path \<noteq> [] \<and> last path \<noteq> CHR ''/''
              \<and> map_of regs (path @ ''/'') \<noteq> None
           then RedirectHandler (path @ ''/'')
         else if path \<noteq> Path r then RedirectHandler path
         else (case mux_match regs path of None \<Rightarrow> NotFoundHandler | Some h \<Rightarrow> h))"

text \<open>
  What the server does with a request before a pattern is looked at. The request
  target \<^verbatim>\<open>*\<close> (the only one whose path is \<^verbatim>\<open>*\<close>) never reaches a registered
  handler: with the method \<^verbatim>\<open>OPTIONS\<close> the server answers it itself (status 200, no
  body), and with any other method \<^verbatim>\<open>ServeMux.ServeHTTP\<close> answers 400. Every other
  request goes to the handler that \<^verbatim>\<open>ServeMux.Handler\<close> gives.
\<close>

definition route :: "'a request_scheme \<Rightarrow> handler" where
  "route r =
     (if Path r = ''*'' then
        (if Method r = ''OPTIONS'' then GlobalOptionsHandler else BadRequestHandler)
      else mux_Handler registrations r)"

section \<open>The identity report\<close>

text \<open>
  What \<^verbatim>\<open>whoamiHandler\<close> reads besides the request: the configured \<^verbatim>\<open>name\<close>, the result
  of \<^verbatim>\<open>os.Hostname()\<close> (empty on an error), and the addresses of the network
  interfaces in their order, each as \<^verbatim>\<open>fmt\<close> prints it.
\<close>

record host =
  name :: string
  hostname :: string
  addresses :: "string list"

text \<open>
  The request as \<^verbatim>\<open>whoamiHandler\<close> reads it: also the address of the peer, and what
  \<^verbatim>\<open>req.Write(w)\<close> does, which writes the request in its wire form or fails with an
  error.
\<close>

record whoami_request = request +
  RemoteAddr :: string
  req_Write :: "go_error + string"

text \<open>\<^verbatim>\<open>fmt.Fprintln(w, a, b)\<close>: the two operands with a space between and a line feed.\<close>

definition Fprintln :: "ResponseWriter \<Rightarrow> string \<Rightarrow> string \<Rightarrow> ResponseWriter" where
  "Fprintln w a b = Write (Bytes (a @ '' '' @ b @ [CHR 0x0A])) w"

text \<open>
  \<^verbatim>\<open>whoamiHandler\<close>. The sleep that the \<^verbatim>\<open>wait\<close> parameter asks for delays the response
  and changes nothing in it; it is left out.
\<close>

definition whoamiHandler :: "host \<Rightarrow> ResponseWriter \<Rightarrow> whoami_request \<Rightarrow> panic + ResponseWriter" where
  "whoamiHandler h w req =
     (let w = (if name h \<noteq> [] then Fprintln w ''Name:'' (name h) else w);
          w = Fprintln w ''Hostname:'' (hostname h);
          w = fold (\<lambda>ip w. Fprintln w ''IP:'' ip) (addresses h) w;
          w = Fprintln w ''RemoteAddr:'' (RemoteAddr req)
      in case req_Write req of
           Inr text \<Rightarrow> Inr (if text = [] then w else Write (Bytes text) w)
         | Inl err \<Rightarrow> http_Error w (ErrorText err) 500)"

text \<open>
  The identity report as the specification words it: one fact on each line, in the
  order name (when one is configured), host name, each address, remote address.
\<close>

definition identity_report :: "host \<Rightarrow> whoami_request \<Rightarrow> chunk list" where
  "identity_report h req =
     (if name h = [] then [] else [Bytes (''Name: '' @ name h @ [CHR 0x0A])])
     @ [Bytes (''Hostname: '' @ hostname h @ [CHR 0x0A])]
     @ map (\<lambda>ip. Bytes (''IP: '' @ ip @ [CHR 0x0A])) (addresses h)
     @ [Bytes (''RemoteAddr: '' @ RemoteAddr req @ [CHR 0x0A])]"

section \<open>The echo channel\<close>

text \<open>
  A frame is a payload with its type tag. The connection that \<^verbatim>\<open>upgrader.Upgrade\<close>
  returns is given by what its peer does: the result of the \<open>k\<close>-th call of
  \<^verbatim>\<open>ReadMessage\<close>, a frame or (as \<open>None\<close>) an error, and whether the \<open>k\<close>-th call of
  \<^verbatim>\<open>WriteMessage\<close> succeeds.
\<close>

datatype message_type = TextMessage | BinaryMessage

type_synonym frame = "message_type \<times> string"

record conn =
  ReadMessage :: "nat \<Rightarrow> frame option"
  WriteMessage :: "nat \<Rightarrow> bool"

text \<open>
  The loop of \<^verbatim>\<open>echoHandler\<close> (lines 109 to 120), in its \<open>k\<close>-th round, with the frames
  written back so far. It has no exit but the two \<^verbatim>\<open>return\<close>s, so it is a partial
  function: \<open>None\<close> stands for a loop that never returns.
\<close>

partial_function (option) echo_loop :: "conn \<Rightarrow> nat \<Rightarrow> frame list \<Rightarrow> frame list option" where
  "echo_loop c k echoed =
     (case ReadMessage c k of
        None \<Rightarrow> Some echoed
      | Some (messageType, p) \<Rightarrow>
          if WriteMessage c k then echo_loop c (Suc k) (echoed @ [(messageType, p)])
          else Some echoed)"

text \<open>
  \<^verbatim>\<open>echoHandler\<close>: when the upgrade fails (\<open>None\<close>) it returns at once; otherwise it runs
  the loop. The result is the list of frames written to the peer when the handler
  returns.
\<close>

definition echoHandler :: "conn option \<Rightarrow> frame list option" where
  "echoHandler upgraded =
     (case upgraded of None \<Rightarrow> Some [] | Some c \<Rightarrow> echo_loop c 0 [])"

section \<open>Properties of the payload generator\<close>

lemma fold_store_prefix:
  "k \<le> length b \<Longrightarrow>
     fold (\<lambda>i b. b[i := f i]) [0..<k] b = map f [0..<k] @ drop k b"
proof (induction k)
  case 0
  then show ?case by simp
next
  case (Suc k)
  then have k: "k < length b" by simp
  have "fold (\<lambda>i b. b[i := f i]) [0..<Suc k] b = (map f [0..<k] @ drop k b)[k := f k]"
    using Suc by simp
  also have "\<dots> = map f [0..<k] @ (drop k b)[0 := f k]"
    by (simp add: list_update_append)
  also have "(drop k b)[0 := f k] = f k # drop (Suc k) b"
    using k by (simp add: Cons_nth_drop_Suc [symmetric])
  finally show ?case by simp
qed

lemma fill_range_eq:
  "fill_range b = map (\<lambda>i. charset ! (i mod length charset)) [0..<length b]"
  unfolding fill_range_def using fold_store_prefix [of "length b" b] by simp

lemma length_charset: "length charset = 27"
  by (simp add: charset_def)

lemma nonneg_int64: "\<not> n <s 0 \<longleftrightarrow> 0 \<le>s (n :: int64)"
  by (simp add: word_sless_alt word_sle_eq not_less)

lemma sint_nonneg_int64: "0 \<le>s (n :: int64) \<Longrightarrow> sint n = int (unat n)"
proof -
  assume "0 \<le>s n"
  then have 0: "0 \<le> sint n" by (simp add: word_sle_eq)
  have "sint n < 2 ^ 63" using sint_lt [of n] by simp
  then have "sint n < 2 ^ 64" by simp
  with 0 have "take_bit 64 (sint n) = sint n" by (simp add: take_bit_int_eq_self)
  then show ?thesis using uint_sint [of n] by simp
qed

lemma pos_int64: "\<not> n <s 0 \<Longrightarrow> 0 <s (n :: int64) \<longleftrightarrow> 0 < unat n"
  using unat_gt_0 by fastforce

lemma unat_pred_int64: "0 < unat (n :: int64) \<Longrightarrow> unat (n - 1) = unat n - 1"
  by (simp add: unat_minus_one unat_gt_0)

lemma fillContent_closed:
  assumes "\<not> n <s 0" "unat n \<le> maxAlloc" "unat n \<le> avail"
  shows "fillContent avail n = Inr (map (pattern (unat n)) [0..<unat n])"
proof -
  let ?k = "unat n"
  let ?f = "\<lambda>i. charset ! (i mod 27)"
  have mk: "make_bytes avail n = Inr (replicate ?k (CHR 0x00))"
    using assms by (simp add: make_bytes_def)
  have fr: "fill_range (replicate ?k (CHR 0x00)) = map ?f [0..<?k]"
    by (simp add: fill_range_eq length_charset)
  show ?thesis
  proof (cases "0 < ?k")
    case False
    then have "\<not> 0 <s n" using assms(1) by (simp add: pos_int64)
    with False fr show ?thesis by (simp add: fillContent_def mk)
  next
    case True
    then have p: "0 <s n" using assms(1) by (simp add: pos_int64)
    have "(map ?f [0..<?k])[0 := CHR ''|'', ?k - 1 := CHR ''|''] = map (pattern ?k) [0..<?k]"
      using True by (auto simp: list_eq_iff_nth_eq nth_list_update pattern_def)
    with p True show ?thesis
      by (simp add: fillContent_def mk fr unat_pred_int64 Let_def)
  qed
qed


section \<open>Decimal text of an integer\<close>

text \<open>
  What \<^verbatim>\<open>FormatInt\<close> writes, \<^verbatim>\<open>ParseInt\<close> and the JSON decoder read back: the way to
  the statement that the JSON text of every status code decodes to that code.
\<close>

lemma digit_chars:
  "n < 10 \<Longrightarrow> is_digit (''0123456789'' ! n) \<and> digit_val (''0123456789'' ! n) = n
     \<and> (''0123456789'' ! n = CHR ''0'' \<longleftrightarrow> n = 0)
     \<and> \<not> isSpace (''0123456789'' ! n)
     \<and> ''0123456789'' ! n \<notin> set ''+-n''"
proof -
  assume "n < 10"
  then have "n \<in> {0, 1, 2, 3, 4, 5, 6, 7, 8, 9}" by auto
  then show ?thesis
    by (auto simp: is_digit_def digit_val_def isSpace_def)
qed

lemma show_nat_small: "n < 10 \<Longrightarrow> show_nat n = [''0123456789'' ! n]"
  by (simp add: show_nat.simps)

lemma show_nat_large:
  "\<not> n < 10 \<Longrightarrow> show_nat n = show_nat (n div 10) @ [''0123456789'' ! (n mod 10)]"
  by (subst show_nat.simps) simp

lemma show_nat_not_Nil: "show_nat n \<noteq> []"
  by (cases "n < 10") (simp_all add: show_nat_small show_nat_large)

lemma show_nat_digits: "c \<in> set (show_nat n) \<Longrightarrow> is_digit c"
proof (induction n rule: show_nat.induct)
  case (1 n)
  show ?case
  proof (cases "n < 10")
    case True
    with 1(2) show ?thesis by (simp add: show_nat_small digit_chars)
  next
    case False
    have "n mod 10 < 10" by simp
    then have "is_digit (''0123456789'' ! (n mod 10))" by (simp only: digit_chars)
    with 1 False show ?thesis by (auto simp: show_nat_large)
  qed
qed

lemma hd_show_nat: "0 < n \<Longrightarrow> hd (show_nat n) \<noteq> CHR ''0''"
proof (induction n rule: show_nat.induct)
  case (1 n)
  show ?case
  proof (cases "n < 10")
    case True
    with 1(2) show ?thesis using digit_chars [of n] by (simp add: show_nat_small del: nth_Cons_numeral)
  next
    case False
    then have "0 < n div 10" by simp
    with 1(1) False have "hd (show_nat (n div 10)) \<noteq> CHR ''0''" by simp
    with False show ?thesis by (simp add: show_nat_large show_nat_not_Nil)
  qed
qed

lemma ParseUint_loop_append:
  "ParseUint_loop acc (xs @ ys) =
     (case ParseUint_loop acc xs of Inl e \<Rightarrow> Inl e | Inr m \<Rightarrow> ParseUint_loop m ys)"
  by (induction xs arbitrary: acc) simp_all

lemma ParseUint_loop_show_nat: "n \<le> maxVal \<Longrightarrow> ParseUint_loop 0 (show_nat n) = Inr n"
proof (induction n rule: show_nat.induct)
  case (1 n)
  show ?case
  proof (cases "n < 10")
    case True
    with 1(2) show ?thesis by (simp add: show_nat_small digit_chars maxVal_def)
  next
    case False
    let ?d = "''0123456789'' ! (n mod 10)"
    have d: "is_digit ?d" "digit_val ?d = n mod 10"
      using digit_chars [of "n mod 10"] by simp_all
    have "ParseUint_loop 0 (show_nat (n div 10)) = Inr (n div 10)"
      using 1 False by simp
    moreover have "\<not> n div 10 \<ge> maxVal div 10 + 1" using 1(2) by (simp add: maxVal_def)
    moreover have "n div 10 * 10 + n mod 10 = n" by simp
    ultimately show ?thesis
      using False 1(2) d by (simp add: show_nat_large ParseUint_loop_append)
  qed
qed


lemma word_of_sint_nat:
  "(if c <s 0 then - of_nat (nat (- sint c)) else of_nat (nat (sint c))) = (c :: int64)"
  by (simp add: word_sless_alt)

lemma sint_bounds: "- (2 ^ 63) \<le> sint (c :: int64)" "sint (c :: int64) < 2 ^ 63"
  using sint_ge [of c] sint_lt [of c] by simp_all


lemma hd_show_nat_digit:
  "is_digit (hd (show_nat n))" "hd (show_nat n) \<noteq> CHR ''-''" "hd (show_nat n) \<noteq> CHR ''+''"
  "hd (show_nat n) \<noteq> CHR ''n''" "\<not> isSpace (hd (show_nat n))"
proof -
  have "hd (show_nat n) \<in> set (show_nat n)" by (simp add: show_nat_not_Nil)
  then have d: "is_digit (hd (show_nat n))" by (rule show_nat_digits)
  then show "is_digit (hd (show_nat n))" .
  from d show "hd (show_nat n) \<noteq> CHR ''-''" "hd (show_nat n) \<noteq> CHR ''+''"
    "hd (show_nat n) \<noteq> CHR ''n''" "\<not> isSpace (hd (show_nat n))"
    by (auto simp: is_digit_def isSpace_def)
qed

lemma ParseUint_show_nat: "n \<le> maxVal \<Longrightarrow> ParseUint (show_nat n) = Inr n"
  by (simp add: ParseUint_def show_nat_not_Nil ParseUint_loop_show_nat)

lemma ParseInt_FormatInt: "ParseInt (FormatInt c) = Inr c"
proof (cases "c <s 0")
  case True
  let ?n = "nat (- sint c)"
  have n: "?n \<le> 2 ^ 63" using sint_bounds(1) [of c] by simp
  then have "?n \<le> maxVal" by (simp add: maxVal_def)
  then have "ParseUint (show_nat ?n) = Inr ?n" by (rule ParseUint_show_nat)
  moreover have "- of_nat ?n = c" using True word_of_sint_nat [of c] by simp
  ultimately show ?thesis using True n by (simp add: ParseInt_def FormatInt_def)
next
  case False
  let ?n = "nat (sint c)"
  have n: "?n < 2 ^ 63" using sint_bounds(2) [of c] by simp
  then have "?n \<le> maxVal" by (simp add: maxVal_def)
  then have "ParseUint (show_nat ?n) = Inr ?n" by (rule ParseUint_show_nat)
  moreover have "of_nat ?n = c" using False word_of_sint_nat [of c] by simp
  ultimately show ?thesis
    using False n by (simp add: ParseInt_def FormatInt_def show_nat_not_Nil hd_show_nat_digit)
qed

lemma int_literal_digits:
  "int_literal (sign @ show_nat n) = Some (sign @ show_nat n, [])" if "sign = [] \<or> sign = ''-''"
proof -
  have s: "hd (sign @ show_nat n) = CHR ''-'' \<longleftrightarrow> sign = ''-''"
    using that by (auto simp: hd_show_nat_digit)
  have r: "drop (length sign) (sign @ show_nat n) = show_nat n" by simp
  have all: "takeWhile is_digit (show_nat n) = show_nat n" "dropWhile is_digit (show_nat n) = []"
    by (simp_all add: show_nat_digits)
  show ?thesis
  proof (cases "n = 0")
    case True
    with that show ?thesis by (auto simp: int_literal_def show_nat_small is_digit_def)
  next
    case False
    then have "hd (show_nat n) \<noteq> CHR ''0''" by (simp add: hd_show_nat)
    with that s all show ?thesis
      by (auto simp: int_literal_def Let_def show_nat_not_Nil hd_show_nat_digit)
  qed
qed

lemma int_literal_FormatInt: "int_literal (FormatInt c) = Some (FormatInt c, [])"
  using int_literal_digits [of "[]" "nat (sint c)"] int_literal_digits [of "''-''" "nat (- sint c)"]
  by (simp add: FormatInt_def)

lemma Decode_int_FormatInt: "Decode_int (FormatInt c) = Inr c"
proof -
  have "dropWhile isSpace (FormatInt c) = FormatInt c"
    by (cases "show_nat (nat (sint c))")
      (use hd_show_nat_digit(5) [of "nat (sint c)"] in
        \<open>auto simp: FormatInt_def isSpace_def show_nat_not_Nil\<close>)
  moreover have "FormatInt c \<noteq> []" "hd (FormatInt c) \<noteq> CHR ''n''"
    by (simp_all add: FormatInt_def show_nat_not_Nil hd_show_nat_digit)
  ultimately show ?thesis
    by (simp add: Decode_int_def int_literal_FormatInt ParseInt_FormatInt)
qed

section \<open>Responses\<close>

lemma finish_http_Error:
  "finish (http_Error new_writer msg 400) = Response 400 [msg, Bytes [CHR 0x0A]]"
  by (simp add: http_Error_def WriteHeader_def Write_def new_writer_def finish_def
      word_sless_alt word_sle_eq)

lemma final_status:
  "c = 101 \<or> 200 \<le>s c \<and> c \<le>s 999 \<Longrightarrow> finish (WriteHeader c new_writer) = Response c []"
  by (auto simp: WriteHeader_def new_writer_def finish_def word_sless_alt word_sle_eq)


section \<open>The length the data handler asks for\<close>







section \<open>Bodies the decoder rejects\<close>

lemma Decode_int_not_a_number:
  assumes "begins_no_number body"
  shows "\<exists>e. Decode_int body = Inl e"
proof (cases "dropWhile isSpace body")
  case Nil
  then show ?thesis by (simp add: Decode_int_def)
next
  case (Cons c cs)
  with assms have c: "\<not> is_digit c" "c \<noteq> CHR ''-''" "c \<noteq> CHR ''n''"
    by (simp_all add: begins_no_number_def)
  with Cons have "int_literal (c # cs) = None"
    by (simp add: int_literal_def)
  with c Cons show ?thesis by (simp add: Decode_int_def)
qed

text \<open>Bodies the decoder accepts: \<^verbatim>\<open>null\<close>, and an integer literal, whatever follows the value.\<close>

lemma int_literal_digits_rest:
  assumes "sign = [] \<or> sign = ''-''" and "rest = [] \<or> \<not> is_digit (hd rest)"
  shows "int_literal (sign @ show_nat n @ rest) = Some (sign @ show_nat n, rest)"
proof -
  have s: "hd (sign @ show_nat n @ rest) = CHR ''-'' \<longleftrightarrow> sign = ''-''"
    using assms(1) by (auto simp: hd_append show_nat_not_Nil hd_show_nat_digit)
  have hd: "hd (show_nat n @ rest) = hd (show_nat n)" by (simp add: hd_append show_nat_not_Nil)
  have tw: "takeWhile is_digit rest = []" "dropWhile is_digit rest = rest"
    using assms(2) by (cases rest; simp)+
  have all: "takeWhile is_digit (show_nat n @ rest) = show_nat n"
    "dropWhile is_digit (show_nat n @ rest) = rest"
    by (simp_all add: takeWhile_append2 dropWhile_append2 show_nat_digits tw)
  show ?thesis
  proof (cases "n = 0")
    case True
    with assms(1) show ?thesis by (auto simp: int_literal_def show_nat_small is_digit_def)
  next
    case False
    then have "hd (show_nat n) \<noteq> CHR ''0''" by (simp add: hd_show_nat)
    with assms(1) s all hd show ?thesis
      by (auto simp: int_literal_def Let_def show_nat_not_Nil hd_show_nat_digit)
  qed
qed

lemma Decode_int_leading_integer:
  assumes "\<forall>c \<in> set ws. isSpace c"
    and "rest = [] \<or> (\<not> is_digit (hd rest) \<and> hd rest \<notin> set [CHR ''.'', CHR ''e'', CHR ''E''])"
  shows "Decode_int (ws @ FormatInt c @ rest) = Inr c"
proof -
  have ne: "FormatInt c \<noteq> []" "hd (FormatInt c) \<noteq> CHR ''n''" "\<not> isSpace (hd (FormatInt c))"
    using hd_show_nat_digit(4,5) [of "nat (sint c)"]
    by (simp_all add: FormatInt_def show_nat_not_Nil) (simp add: isSpace_def)
  then have "dropWhile isSpace (FormatInt c @ rest) = FormatInt c @ rest"
    by (cases "FormatInt c") simp_all
  with assms(1) have d: "dropWhile isSpace (ws @ FormatInt c @ rest) = FormatInt c @ rest"
    by (simp add: dropWhile_append2)
  have r: "rest = [] \<or> \<not> is_digit (hd rest)" using assms(2) by blast
  have lit: "int_literal (FormatInt c @ rest) = Some (FormatInt c, rest)"
    using int_literal_digits_rest [of "[]" rest "nat (sint c)"]
      int_literal_digits_rest [of "''-''" rest "nat (- sint c)"] r
    by (simp add: FormatInt_def)
  from ne have h: "hd (FormatInt c @ rest) \<noteq> CHR ''n''" by (simp add: hd_append)
  show ?thesis
    using assms(2) ne(1) h
    by (auto simp: Decode_int_def d lit ParseInt_FormatInt)
qed

lemma Decode_int_null:
  assumes "\<forall>c \<in> set ws. isSpace c"
  shows "Decode_int (ws @ ''null'' @ rest) = Inr 0"
proof -
  have "dropWhile isSpace (ws @ ''null'' @ rest) = ''null'' @ rest"
    using assms by (simp add: dropWhile_append2 isSpace_def)
  then show ?thesis by (simp add: Decode_int_def)
qed

section \<open>The multiplexer on the registered patterns\<close>

lemma cleanPath_rooted: "cleanPath p \<noteq> [] \<and> hd (cleanPath p) = CHR ''/''"
  by (simp add: cleanPath_def Clean_def Let_def)

lemma map_of_registrations:
  "map_of registrations p =
     (if p = ''/data'' then Some DataHandler else if p = ''/echo'' then Some EchoHandler
      else if p = ''/bench'' then Some BenchHandler else if p = ''/'' then Some WhoamiHandler
      else if p = ''/api'' then Some ApiHandler else if p = ''/health'' then Some HealthHandler
      else None)"
  by (simp add: registrations_def)

lemma subtree_patterns:
  "sort_key (\<lambda>(pat, h). - int (length pat))
     (filter (\<lambda>(pat, h). pat \<noteq> [] \<and> last pat = CHR ''/'') registrations) = [(''/'', WhoamiHandler)]"
  by (simp add: registrations_def)

lemma no_slash_redirect:
  "p \<noteq> [] \<Longrightarrow> map_of registrations (p @ ''/'') = None"
  by (auto simp: map_of_registrations append_eq_Cons_conv)

lemma mux_match_rooted:
  assumes "p \<noteq> []" "hd p = CHR ''/''"
    and "p \<notin> set [''/data'', ''/echo'', ''/bench'', ''/api'', ''/health'']"
  shows "mux_match registrations p = Some WhoamiHandler"
proof -
  obtain cs where p: "p = CHR ''/'' # cs" using assms(1,2) by (cases p) auto
  show ?thesis
    using assms(3) unfolding mux_match_def subtree_patterns map_of_registrations
    by (simp add: p)
qed


lemma mux_Handler_rooted:
  assumes "Path r \<noteq> []" "hd (Path r) = CHR ''/''"
    and "Path r \<notin> set [''/data'', ''/echo'', ''/bench'', ''/api'', ''/health'']"
    and "Method r = ''CONNECT'' \<or> cleanPath (Path r) = Path r"
  shows "mux_Handler registrations r = WhoamiHandler"
proof -
  have "mux_match registrations (Path r) = Some WhoamiHandler"
    using assms(1-3) by (rule mux_match_rooted)
  moreover have "map_of registrations (Path r @ ''/'') = None"
    using assms(1) by (rule no_slash_redirect)
  moreover have "(if Method r = ''CONNECT'' then Path r else cleanPath (Path r)) = Path r"
    using assms(4) by auto
  ultimately show ?thesis
    by (simp add: mux_Handler_def)
qed

lemma map_of_unrooted: "p = [] \<or> hd p \<noteq> CHR ''/'' \<Longrightarrow> map_of registrations p = None"
  by (cases p) (simp_all add: map_of_registrations)

lemma mux_match_unrooted:
  assumes "p = [] \<or> hd p \<noteq> CHR ''/''"
  shows "mux_match registrations p = None"
proof -
  have "map_of registrations p = None"
    using assms by (rule map_of_unrooted)
  moreover have "take (Suc 0) p \<noteq> ''/''"
    using assms by (cases p) auto
  ultimately show ?thesis
    unfolding mux_match_def subtree_patterns by simp
qed

lemma status_Fprintln: "status (Fprintln w a b) \<noteq> None"
  by (simp add: Fprintln_def Write_def)

lemma fold_Fprintln:
  "status w = Some c \<Longrightarrow>
     fold (\<lambda>ip w. Fprintln w a ip) ips w
       = w\<lparr>written := written w @ map (\<lambda>ip. Bytes (a @ '' '' @ ip @ [CHR 0x0A])) ips\<rparr>"
  by (induction ips arbitrary: w) (simp_all add: Fprintln_def Write_def)

lemma whoami_report:
  "finish (whoamiHandler h new_writer req)
     = Response 200
         (identity_report h req
          @ (case req_Write req of
               Inr text \<Rightarrow> (if text = [] then [] else [Bytes text])
             | Inl err \<Rightarrow> [ErrorText err, Bytes [CHR 0x0A]]))"
proof -
  define w1 where "w1 = (if name h \<noteq> [] then Fprintln new_writer ''Name:'' (name h) else new_writer)"
  define w2 where "w2 = Fprintln w1 ''Hostname:'' (hostname h)"
  define w3 where "w3 = fold (\<lambda>ip w. Fprintln w ''IP:'' ip) (addresses h) w2"
  define w4 where "w4 = Fprintln w3 ''RemoteAddr:'' (RemoteAddr req)"
  have s2: "status w2 = Some 200"
    by (simp add: w2_def w1_def Fprintln_def Write_def new_writer_def)
  have wr2: "written w2 = (if name h = [] then [] else [Bytes (''Name: '' @ name h @ [CHR 0x0A])])
      @ [Bytes (''Hostname: '' @ hostname h @ [CHR 0x0A])]"
    by (simp add: w2_def w1_def Fprintln_def Write_def new_writer_def)
  have w3: "w3 = w2\<lparr>written := written w2
      @ map (\<lambda>ip. Bytes (''IP:'' @ '' '' @ ip @ [CHR 0x0A])) (addresses h)\<rparr>"
    unfolding w3_def using s2 by (rule fold_Fprintln)
  have s4: "status w4 = Some 200" "written w4 = identity_report h req"
    by (simp_all add: w4_def w3 s2 wr2 Fprintln_def Write_def identity_report_def)
  have wh: "whoamiHandler h new_writer req
      = (case req_Write req of
           Inr text \<Rightarrow> Inr (if text = [] then w4 else Write (Bytes text) w4)
         | Inl err \<Rightarrow> http_Error w4 (ErrorText err) 500)"
    unfolding whoamiHandler_def Let_def w4_def w3_def w2_def w1_def by (rule refl)
  show ?thesis
  proof (cases "req_Write req")
    case (Inl err)
    then show ?thesis
      by (simp add: wh s4 finish_def Write_def http_Error_def WriteHeader_def)
  next
    case (Inr t)
    then show ?thesis
      by (simp add: wh s4 finish_def Write_def)
  qed
qed

section \<open>The echo loop up to the first error\<close>

lemma echo_loop_until:
  assumes ok: "\<forall>i. j \<le> i \<and> i < k \<longrightarrow> ReadMessage c i = Some (fs ! i) \<and> WriteMessage c i"
    and stop: "ReadMessage c k = None \<or> \<not> WriteMessage c k"
    and le: "j \<le> k"
  shows "echo_loop c j echoed = Some (echoed @ map ((!) fs) [j..<k])"
  using ok le
proof (induction "k - j" arbitrary: j echoed)
  case 0
  then have "j = k" by simp
  with stop show ?case
    by (subst echo_loop.simps) (auto split: option.splits)
next
  case (Suc d)
  then have lt: "j < k" by simp
  with Suc.prems have here: "ReadMessage c j = Some (fs ! j)" "WriteMessage c j" by simp_all
  obtain t p where f: "fs ! j = (t, p)" by (cases "fs ! j")
  have "echo_loop c (Suc j) (echoed @ [fs ! j]) = Some ((echoed @ [fs ! j]) @ map ((!) fs) [Suc j..<k])"
    using Suc lt by (intro Suc.hyps(1)) simp_all
  moreover have "[j..<k] = j # [Suc j..<k]" using lt by (simp add: upt_conv_Cons)
  ultimately show ?case
    using here f by (subst echo_loop.simps) simp
qed

section \<open>The claims of the specification\<close>

subsection \<open>The payload generator\<close>

text \<open>
  Claim C1, amended. For every non-negative \<open>n\<close> that \<^verbatim>\<open>make\<close> grants (at most \<open>maxAlloc\<close>,
  and at most the memory the process can get), \<open>fillContent n\<close> returns a byte
  sequence of length exactly \<open>n\<close>; when \<open>n > 0\<close> its first and its last byte are the
  sentinel \<open>|\<close>; every byte at a position \<open>i\<close> between them is \<open>charset[i mod 27]\<close>; and
  the character set is a dash followed by the 26 capital letters \<open>A\<close> (code 65) to \<open>Z\<close>
  (code 90).
\<close>

theorem fillContent_pattern:
  assumes "0 \<le>s n" and "unat n \<le> maxAlloc" and "unat n \<le> avail"
  shows "\<exists>b. fillContent avail n = Inr b \<and> int (length b) = sint n
           \<and> (0 < length b \<longrightarrow> b ! 0 = CHR ''|'' \<and> b ! (length b - 1) = CHR ''|'')
           \<and> (\<forall>i. 0 < i \<and> i < length b - 1 \<longrightarrow> b ! i = charset ! (i mod 27))
           \<and> charset = CHR ''-'' # map char_of [65 ..< 91 :: nat]"
proof -
  have nn: "\<not> n <s 0" using assms(1) by (simp add: nonneg_int64)
  have cs: "charset = CHR ''-'' # map char_of [65 ..< 91 :: nat]"
    unfolding charset_def by code_simp
  let ?b = "map (pattern (unat n)) [0..<unat n]"
  have "fillContent avail n = Inr ?b" using nn assms(2,3) by (rule fillContent_closed)
  moreover have "int (length ?b) = sint n" using assms(1) by (simp add: sint_nonneg_int64)
  moreover have "0 < length ?b \<longrightarrow> ?b ! 0 = CHR ''|'' \<and> ?b ! (length ?b - 1) = CHR ''|''"
    by (auto simp: pattern_def)
  moreover have "\<forall>i. 0 < i \<and> i < length ?b - 1 \<longrightarrow> ?b ! i = charset ! (i mod 27)"
    by (auto simp: pattern_def)
  ultimately show ?thesis using cs by blast
qed

theorem fillContent_pattern_witness:
  "0 \<le>s (5 :: int64) \<and> unat (5 :: int64) \<le> maxAlloc \<and> unat (5 :: int64) \<le> 4096 \<and>
   (\<exists>b. fillContent 4096 5 = Inr b \<and> length b = 5 \<and> b ! 0 = CHR ''|'' \<and> b ! 2 = CHR ''B''
      \<and> b ! 3 = CHR ''C'' \<and> b ! 4 = CHR ''|'')"
proof -
  have h: "0 \<le>s (5 :: int64)" "unat (5 :: int64) \<le> maxAlloc" "unat (5 :: int64) \<le> 4096"
    by (simp_all add: word_sle_eq maxAlloc_def)
  obtain b where b: "fillContent 4096 5 = Inr b" "int (length b) = sint (5 :: int64)"
    "0 < length b \<longrightarrow> b ! 0 = CHR ''|'' \<and> b ! (length b - 1) = CHR ''|''"
    "\<forall>i. 0 < i \<and> i < length b - 1 \<longrightarrow> b ! i = charset ! (i mod 27)"
    using fillContent_pattern [OF h] by blast
  from b(2) have len: "length b = 5" by simp
  from b(3) len have e: "b ! 0 = CHR ''|''" "b ! 4 = CHR ''|''" by simp_all
  from b(4) len have m: "b ! 2 = charset ! 2" "b ! 3 = charset ! 3"
    by simp_all
  from m have "b ! 2 = CHR ''B''" "b ! 3 = CHR ''C''" by (simp_all add: charset_def)
  with h b(1) len e show ?thesis by simp
qed

text \<open>
  The claim as the specification states it, for every non-negative \<open>n\<close>, fails for a
  length above \<open>maxAlloc\<close>: with \<open>n = 2^50\<close> (the length that \<^verbatim>\<open>/data?size=1024&unit=tb\<close>
  asks for) \<^verbatim>\<open>make\<close> panics, even where that much memory is there. It fails as well
  where the memory is not there: \<open>2^21\<close> bytes in a process that can get \<open>2^20\<close>.
\<close>

theorem fillContent_pattern_counterexample:
  "fillContent (2 ^ 50) (2 ^ 50) = Inl MakesliceLenOutOfRange
   \<and> fillContent (2 ^ 20) (2 ^ 21) = Inl OutOfMemory"
  by (simp add: fillContent_def make_bytes_def maxAlloc_def word_sless_alt)




subsection \<open>The data handler\<close>

text \<open>
  Claim C2. The claim: for every \<^verbatim>\<open>size\<close> and \<^verbatim>\<open>unit\<close>, the length that reaches the
  generator is non-negative. The handler sets a negative \<^verbatim>\<open>size\<close> to 0 and then
  multiplies in \<^verbatim>\<open>int64\<close> without a check: for \<^verbatim>\<open>size=9007199254740992&unit=kb\<close> the
  product \<open>2^53 * 2^10\<close> wraps to \<open>-2^63\<close>, \<^verbatim>\<open>fillContent\<close> is called with it, and
  \<^verbatim>\<open>make\<close> panics, whatever the memory and whatever \<^verbatim>\<open>http.ServeContent\<close> does.
\<close>

theorem dataHandler_negative_length:
  "sint (dataHandler_size \<lparr>Method = ''GET'', Path = ''/data'',
      Query = [(''size'', ''9007199254740992''), (''unit'', ''kb'')], Body = []\<rparr>) = - (2 ^ 63)
   \<and> finish (dataHandler ServeContent avail new_writer \<lparr>Method = ''GET'', Path = ''/data'',
      Query = [(''size'', ''9007199254740992''), (''unit'', ''kb'')], Body = []\<rparr>)
     = Aborted MakesliceLenOutOfRange"
  by (simp add: dataHandler_def fillContent_def make_bytes_def finish_def dataHandler_size_def
      Get_def lower_def KB_def ParseInt_def ParseUint_def maxVal_def is_digit_def digit_val_def
      ParseBool_def word_sless_alt)




subsection \<open>The health handler\<close>

text \<open>
  Claim C3, amended. A \<^verbatim>\<open>POST\<close> to \<^verbatim>\<open>/health\<close> whose body the decoder rejects is answered
  with status 400 and the text of the decode error as the body (followed by the line
  feed that \<^verbatim>\<open>http.Error\<close> ends it with), and the health state stays as it was: any
  request after it gets the response it would have got before. The decoder rejects
  every body that is empty or blank and every body whose first byte after the white
  space is no digit, no minus sign and no \<open>n\<close>: every JSON string, array and object,
  \<^verbatim>\<open>true\<close> and \<^verbatim>\<open>false\<close>. A body that the decoder accepts is answered with status 200
  and stores the decoded code, also when the body as a whole is no JSON integer. The
  decoder accepts, after any white space, \<^verbatim>\<open>null\<close> whatever follows it, which stores 0,
  and the decimal text of a code \<open>n\<close> of Go's \<^verbatim>\<open>int\<close> at the end of the body or before a
  byte that is no digit, no point and no \<open>e\<close> or \<open>E\<close>, which stores \<open>n\<close>.
\<close>

theorem health_decode_failure:
  assumes "Method req = ''POST''"
  shows "(Decode_int (Body req) = Inl err \<longrightarrow>
            health req st = (st, Response 400 [ErrorText err, Bytes [CHR 0x0A]])
            \<and> (\<forall>g. snd (health g (fst (health req st))) = snd (health g st)))
         \<and> (begins_no_number (Body req) \<longrightarrow>
            (\<exists>e. health req st = (st, Response 400 [ErrorText e, Bytes [CHR 0x0A]])))
         \<and> (Decode_int (Body req) = Inr c \<longrightarrow>
            health req st = (st\<lparr>StatusCode := c\<rparr>, Response 200 []))
         \<and> ((\<forall>x \<in> set ws. isSpace x) \<and> Body req = ws @ ''null'' @ rest \<longrightarrow>
            health req st = (st\<lparr>StatusCode := 0\<rparr>, Response 200 []))
         \<and> ((\<forall>x \<in> set ws. isSpace x) \<and> Body req = ws @ FormatInt n @ rest
              \<and> (rest = [] \<or> (\<not> is_digit (hd rest)
                    \<and> hd rest \<notin> set [CHR ''.'', CHR ''e'', CHR ''E''])) \<longrightarrow>
            health req st = (st\<lparr>StatusCode := n\<rparr>, Response 200 []))"
proof -
  have ok: "health req st = (st\<lparr>StatusCode := k\<rparr>, Response 200 [])"
    if "Decode_int (Body req) = Inr k" for k
    using that assms by (simp add: health_def healthHandler_def finish_def new_writer_def)
  have bad: "health req st = (st, Response 400 [ErrorText e, Bytes [CHR 0x0A]])"
    if "Decode_int (Body req) = Inl e" for e
    using that assms by (simp add: health_def healthHandler_def finish_http_Error)
  show ?thesis
  proof (intro conjI impI)
    assume "Decode_int (Body req) = Inl err"
    from bad [OF this]
    show "health req st = (st, Response 400 [ErrorText err, Bytes [CHR 0x0A]])"
      "\<forall>g. snd (health g (fst (health req st))) = snd (health g st)"
      by simp_all
  next
    assume "begins_no_number (Body req)"
    then obtain e where "Decode_int (Body req) = Inl e"
      using Decode_int_not_a_number by blast
    from bad [OF this]
    show "\<exists>e. health req st = (st, Response 400 [ErrorText e, Bytes [CHR 0x0A]])" ..
  next
    assume "Decode_int (Body req) = Inr c"
    then show "health req st = (st\<lparr>StatusCode := c\<rparr>, Response 200 [])" by (rule ok)
  next
    assume "(\<forall>x \<in> set ws. isSpace x) \<and> Body req = ws @ ''null'' @ rest"
    then have "Decode_int (Body req) = Inr 0" using Decode_int_null [of ws rest] by simp
    then show "health req st = (st\<lparr>StatusCode := 0\<rparr>, Response 200 [])" by (rule ok)
  next
    assume "(\<forall>x \<in> set ws. isSpace x) \<and> Body req = ws @ FormatInt n @ rest
      \<and> (rest = [] \<or> (\<not> is_digit (hd rest)
            \<and> hd rest \<notin> set [CHR ''.'', CHR ''e'', CHR ''E'']))"
    then have "Decode_int (Body req) = Inr n"
      using Decode_int_leading_integer [of ws rest n] by simp
    then show "health req st = (st\<lparr>StatusCode := n\<rparr>, Response 200 [])" by (rule ok)
  qed
qed

theorem health_decode_failure_witness:
  "begins_no_number ''\"up\"''
   \<and> health \<lparr>Method = ''POST'', Path = ''/health'', Query = [], Body = ''\"up\"''\<rparr> currentHealthState
     = (currentHealthState, Response 400 [ErrorText JSONError, Bytes [CHR 0x0A]])
   \<and> health \<lparr>Method = ''POST'', Path = ''/health'', Query = [], Body = '' ''\<rparr> currentHealthState
     = (currentHealthState, Response 400 [ErrorText EOF, Bytes [CHR 0x0A]])
   \<and> health \<lparr>Method = ''POST'', Path = ''/health'', Query = [], Body = '' null,''\<rparr> currentHealthState
     = (\<lparr>StatusCode = 0\<rparr>, Response 200 [])
   \<and> health \<lparr>Method = ''POST'', Path = ''/health'', Query = [], Body = '' 503 x''\<rparr> currentHealthState
     = (\<lparr>StatusCode = 503\<rparr>, Response 200 [])"
proof -
  let ?req = "\<lparr>Method = ''POST'', Path = ''/health'', Query = [], Body = ''\"up\"''\<rparr>"
  let ?blank = "\<lparr>Method = ''POST'', Path = ''/health'', Query = [], Body = '' ''\<rparr>"
  let ?null = "\<lparr>Method = ''POST'', Path = ''/health'', Query = [], Body = '' null,''\<rparr>"
  let ?num = "\<lparr>Method = ''POST'', Path = ''/health'', Query = [], Body = '' 503 x''\<rparr>"
  have d: "Decode_int (Body ?req) = Inl JSONError" "Decode_int (Body ?blank) = Inl EOF"
    by (simp_all add: Decode_int_def int_literal_def isSpace_def is_digit_def)
  have m: "Method ?req = ''POST''" "Method ?blank = ''POST''"
    "Method ?null = ''POST''" "Method ?num = ''POST''" by simp_all
  have f: "FormatInt 503 = ''503''"
    by (simp add: FormatInt_def show_nat.simps word_sless_alt)
  from health_decode_failure [OF m(1), of JSONError currentHealthState] d(1)
  have "health ?req currentHealthState
      = (currentHealthState, Response 400 [ErrorText JSONError, Bytes [CHR 0x0A]])" by blast
  moreover from health_decode_failure [OF m(2), of EOF currentHealthState] d(2)
  have "health ?blank currentHealthState
      = (currentHealthState, Response 400 [ErrorText EOF, Bytes [CHR 0x0A]])" by blast
  moreover have "begins_no_number ''\"up\"''"
    by (simp add: begins_no_number_def isSpace_def is_digit_def)
  moreover from health_decode_failure [OF m(3), of _ currentHealthState _ "'' ''" "'',''"]
  have "health ?null currentHealthState = (\<lparr>StatusCode = 0\<rparr>, Response 200 [])"
    by (simp add: isSpace_def currentHealthState_def)
  moreover from health_decode_failure [OF m(4), of _ currentHealthState _ "'' ''" "'' x''" 503]
  have "health ?num currentHealthState = (\<lparr>StatusCode = 503\<rparr>, Response 200 [])"
    by (simp add: isSpace_def currentHealthState_def f is_digit_def)
  ultimately show ?thesis by simp
qed

text \<open>
  The claim as the specification states it, for every body that is no JSON integer,
  fails for bodies that the decoder accepts: on the state 503, \<^verbatim>\<open>null\<close> is answered
  with 200 and stores 0; \<^verbatim>\<open>404abc\<close> stores 404, its leading integer; \<^verbatim>\<open>01\<close> stores 0.
\<close>

theorem health_decode_failure_counterexample:
  "health \<lparr>Method = ''POST'', Path = ''/health'', Query = [], Body = ''null''\<rparr> \<lparr>StatusCode = 503\<rparr>
     = (\<lparr>StatusCode = 0\<rparr>, Response 200 [])
   \<and> health \<lparr>Method = ''POST'', Path = ''/health'', Query = [], Body = ''404abc''\<rparr> \<lparr>StatusCode = 503\<rparr>
     = (\<lparr>StatusCode = 404\<rparr>, Response 200 [])
   \<and> health \<lparr>Method = ''POST'', Path = ''/health'', Query = [], Body = ''01''\<rparr> \<lparr>StatusCode = 503\<rparr>
     = (\<lparr>StatusCode = 0\<rparr>, Response 200 [])"
  by (simp add: health_def healthHandler_def Decode_int_def int_literal_def isSpace_def
      is_digit_def digit_val_def ParseInt_def ParseUint_def maxVal_def new_writer_def finish_def)

text \<open>
  Claim C4, amended. For every status code \<open>c\<close> of Go's \<^verbatim>\<open>int\<close>, a \<^verbatim>\<open>POST\<close> to \<^verbatim>\<open>/health\<close>
  whose body is the JSON text of \<open>c\<close> succeeds (status 200, empty body), with no check
  of the range, and stores \<open>c\<close>. A \<^verbatim>\<open>GET\<close> after it is answered with status \<open>c\<close> and an
  empty body when \<open>c\<close> is a status that \<^verbatim>\<open>WriteHeader\<close> sends as the final one: 101, or
  200 to 999. So \<^verbatim>\<open>POST\<close> with body \<^verbatim>\<open>503\<close>, then \<^verbatim>\<open>GET\<close>, gives 503. The status code
  before any \<^verbatim>\<open>POST\<close> is 200.
\<close>

theorem health_set_then_get:
  "health \<lparr>Method = ''POST'', Path = p, Query = q, Body = FormatInt c\<rparr> st
     = (st\<lparr>StatusCode := c\<rparr>, Response 200 [])
   \<and> (c = 101 \<or> 200 \<le>s c \<and> c \<le>s 999 \<longrightarrow>
        health \<lparr>Method = ''GET'', Path = p', Query = q', Body = b\<rparr> (st\<lparr>StatusCode := c\<rparr>)
          = (st\<lparr>StatusCode := c\<rparr>, Response c []))
   \<and> FormatInt 503 = ''503''
   \<and> StatusCode currentHealthState = 200"
proof -
  have "health \<lparr>Method = ''POST'', Path = p, Query = q, Body = FormatInt c\<rparr> st
     = (st\<lparr>StatusCode := c\<rparr>, Response 200 [])"
    by (simp add: health_def healthHandler_def Decode_int_FormatInt finish_def new_writer_def)
  moreover have "c = 101 \<or> 200 \<le>s c \<and> c \<le>s 999 \<longrightarrow>
        health \<lparr>Method = ''GET'', Path = p', Query = q', Body = b\<rparr> (st\<lparr>StatusCode := c\<rparr>)
          = (st\<lparr>StatusCode := c\<rparr>, Response c [])"
    by (simp add: health_def healthHandler_def final_status)
  moreover have "FormatInt 503 = ''503''"
    by (simp add: FormatInt_def show_nat.simps word_sless_alt)
  ultimately show ?thesis by (simp add: currentHealthState_def)
qed

theorem health_set_then_get_witness:
  "health \<lparr>Method = ''POST'', Path = ''/health'', Query = [], Body = ''503''\<rparr> currentHealthState
     = (\<lparr>StatusCode = 503\<rparr>, Response 200 [])
   \<and> health \<lparr>Method = ''GET'', Path = ''/health'', Query = [], Body = []\<rparr> \<lparr>StatusCode = 503\<rparr>
     = (\<lparr>StatusCode = 503\<rparr>, Response 503 [])"
proof -
  have r: "200 \<le>s (503 :: int64) \<and> (503 :: int64) \<le>s 999" by (simp add: word_sle_eq)
  note t = health_set_then_get
    [of "''/health''" "[]" 503 currentHealthState "''/health''" "[]" "[]"]
  from t have f: "FormatInt 503 = ''503''" by (elim conjE)
  from t have "health \<lparr>Method = ''POST'', Path = ''/health'', Query = [], Body = ''503''\<rparr>
      currentHealthState = (currentHealthState\<lparr>StatusCode := 503\<rparr>, Response 200 [])"
    unfolding f by (elim conjE)
  moreover from t r have
    "health \<lparr>Method = ''GET'', Path = ''/health'', Query = [], Body = []\<rparr>
       (currentHealthState\<lparr>StatusCode := 503\<rparr>)
     = (currentHealthState\<lparr>StatusCode := 503\<rparr>, Response 503 [])"
    by blast
  ultimately show ?thesis by (simp add: currentHealthState_def)
qed

text \<open>
  The claim as the specification states it, for every integer, fails in three ways.
  The JSON text of \<open>2^63\<close> does not fit \<^verbatim>\<open>int\<close>: the \<^verbatim>\<open>POST\<close> is answered with 400 and
  stores nothing. The \<^verbatim>\<open>POST\<close> of \<^verbatim>\<open>0\<close> succeeds, but the \<^verbatim>\<open>GET\<close> after it panics in
  \<^verbatim>\<open>WriteHeader\<close> and the client gets no response. With 102 stored, the \<^verbatim>\<open>GET\<close> sends
  102 as an informational response and ends with status 200.
\<close>

theorem health_set_then_get_counterexample:
  "health \<lparr>Method = ''POST'', Path = ''/health'', Query = [], Body = ''9223372036854775808''\<rparr>
      currentHealthState
     = (currentHealthState, Response 400 [ErrorText JSONError, Bytes [CHR 0x0A]])
   \<and> health \<lparr>Method = ''POST'', Path = ''/health'', Query = [], Body = FormatInt 0\<rparr>
      currentHealthState
     = (\<lparr>StatusCode = 0\<rparr>, Response 200 [])
   \<and> health \<lparr>Method = ''GET'', Path = ''/health'', Query = [], Body = []\<rparr> \<lparr>StatusCode = 0\<rparr>
     = (\<lparr>StatusCode = 0\<rparr>, Aborted (InvalidWriteHeaderCode 0))
   \<and> health \<lparr>Method = ''GET'', Path = ''/health'', Query = [], Body = []\<rparr> \<lparr>StatusCode = 102\<rparr>
     = (\<lparr>StatusCode = 102\<rparr>, Response 200 [])"
  by (simp add: health_def healthHandler_def Decode_int_def int_literal_def isSpace_def
      is_digit_def digit_val_def ParseInt_def ParseUint_def maxVal_def FormatInt_def
      show_nat.simps http_Error_def WriteHeader_def Write_def new_writer_def finish_def
      currentHealthState_def word_sless_alt word_sle_eq)

text \<open>
  Claim C10, amended. For every request to \<^verbatim>\<open>/health\<close> whose method is not \<^verbatim>\<open>POST\<close>, the
  handler takes the read path: it passes the stored status code to \<^verbatim>\<open>WriteHeader\<close> and
  leaves the health state as it is, so only \<^verbatim>\<open>POST\<close> can change the status code. The
  response has the stored code as its status, and an empty body, when the code is one
  that \<^verbatim>\<open>WriteHeader\<close> sends as the final status: 101, or 200 to 999.
\<close>

theorem health_read_path:
  assumes "Method req \<noteq> ''POST''"
  shows "healthHandler w req st = (st, WriteHeader (StatusCode st) w)
         \<and> fst (health req st) = st
         \<and> (StatusCode st = 101 \<or> 200 \<le>s StatusCode st \<and> StatusCode st \<le>s 999
              \<longrightarrow> snd (health req st) = Response (StatusCode st) [])"
  using assms by (simp add: health_def healthHandler_def final_status)

theorem health_read_path_witness:
  "fst (health \<lparr>Method = ''HEAD'', Path = ''/health'', Query = [], Body = ''404''\<rparr> \<lparr>StatusCode = 503\<rparr>)
     = \<lparr>StatusCode = 503\<rparr>
   \<and> snd (health \<lparr>Method = ''HEAD'', Path = ''/health'', Query = [], Body = ''404''\<rparr> \<lparr>StatusCode = 503\<rparr>)
     = Response 503 []"
proof -
  let ?r = "\<lparr>Method = ''HEAD'', Path = ''/health'', Query = [], Body = ''404''\<rparr>"
  have m: "Method ?r \<noteq> ''POST''" by simp
  have "200 \<le>s (503 :: int64) \<and> (503 :: int64) \<le>s 999" by (simp add: word_sle_eq)
  with health_read_path [OF m, of new_writer "\<lparr>StatusCode = 503\<rparr>"] show ?thesis by simp
qed

text \<open>
  The claim as stated, for every stored code, fails for a code that \<^verbatim>\<open>WriteHeader\<close>
  refuses: a \<^verbatim>\<open>POST\<close> of \<^verbatim>\<open>1000\<close> stores it, and the \<^verbatim>\<open>GET\<close> after it panics; the client
  gets no response with status 1000. With 102 stored, the response to a \<^verbatim>\<open>GET\<close> ends
  with status 200, after 102 as an informational response.
\<close>

theorem health_read_path_counterexample:
  "health \<lparr>Method = ''POST'', Path = ''/health'', Query = [], Body = ''1000''\<rparr> currentHealthState
     = (\<lparr>StatusCode = 1000\<rparr>, Response 200 [])
   \<and> health \<lparr>Method = ''GET'', Path = ''/health'', Query = [], Body = []\<rparr> \<lparr>StatusCode = 1000\<rparr>
     = (\<lparr>StatusCode = 1000\<rparr>, Aborted (InvalidWriteHeaderCode 1000))
   \<and> health \<lparr>Method = ''PUT'', Path = ''/health'', Query = [], Body = []\<rparr> \<lparr>StatusCode = 102\<rparr>
     = (\<lparr>StatusCode = 102\<rparr>, Response 200 [])"
  by (simp add: health_def healthHandler_def Decode_int_def int_literal_def isSpace_def
      is_digit_def digit_val_def ParseInt_def ParseUint_def maxVal_def
      WriteHeader_def new_writer_def finish_def currentHealthState_def word_sless_alt word_sle_eq)

subsection \<open>The echo channel\<close>

text \<open>
  Claim C6. Let the frames \<open>fs\<close> arrive on an open connection, each read and written
  back without error, and let the next read or the next write fail. Then the handler
  returns, and what it has written is \<open>fs\<close>: every frame with its payload and its type
  tag unchanged, in the order of arrival, and nothing after the first error.
\<close>

theorem echo_in_order:
  assumes "\<forall>i<length fs. ReadMessage c i = Some (fs ! i) \<and> WriteMessage c i"
    and "ReadMessage c (length fs) = None \<or> \<not> WriteMessage c (length fs)"
  shows "echoHandler (Some c) = Some fs"
proof -
  have "echo_loop c 0 [] = Some ([] @ map ((!) fs) [0..<length fs])"
    using assms by (intro echo_loop_until) simp_all
  then show ?thesis by (simp add: echoHandler_def map_nth)
qed

theorem echo_in_order_witness:
  "echoHandler (Some \<lparr>ReadMessage = (\<lambda>k. [Some (TextMessage, ''ab''), Some (BinaryMessage, [CHR 0x00]), Some (TextMessage, ''c'')] ! k),
                       WriteMessage = (\<lambda>k. k < 2)\<rparr>)
     = Some [(TextMessage, ''ab''), (BinaryMessage, [CHR 0x00])]"
proof -
  let ?c = "\<lparr>ReadMessage = (\<lambda>k. [Some (TextMessage, ''ab''), Some (BinaryMessage, [CHR 0x00]), Some (TextMessage, ''c'')] ! k),
             WriteMessage = (\<lambda>k. k < 2)\<rparr>"
  let ?fs = "[(TextMessage, ''ab''), (BinaryMessage, [CHR 0x00])]"
  have 1: "\<forall>i<length ?fs. ReadMessage ?c i = Some (?fs ! i) \<and> WriteMessage ?c i"
    by (auto simp: less_Suc_eq)
  have 2: "ReadMessage ?c (length ?fs) = None \<or> \<not> WriteMessage ?c (length ?fs)" by simp
  show ?thesis by (rule echo_in_order [OF 1 2])
qed

subsection \<open>The router\<close>

text \<open>
  Claim C8, amended. A request whose path is rooted, is none of \<^verbatim>\<open>/data\<close>, \<^verbatim>\<open>/echo\<close>,
  \<^verbatim>\<open>/bench\<close>, \<^verbatim>\<open>/api\<close>, \<^verbatim>\<open>/health\<close> and is in clean form (no empty element, no \<open>.\<close> and
  no \<open>..\<close>), or has the method \<^verbatim>\<open>CONNECT\<close>, goes to the whoami handler, not to a
  not-found handler; the five patterns match whole paths only, so \<^verbatim>\<open>/data/x\<close> goes to
  whoami too. The whoami handler answers with status 200 and the identity report: the
  lines of \<open>identity_report\<close>, then the request as \<^verbatim>\<open>req.Write\<close> writes it, or the text
  of its error. Three kinds of request with another path get no identity report: one
  whose path is not in clean form (method other than \<^verbatim>\<open>CONNECT\<close>) is answered by a
  redirect to the clean path; a \<^verbatim>\<open>CONNECT\<close> whose path is not rooted gets the not-found
  handler; the request target \<^verbatim>\<open>*\<close> is answered by the server itself, with 200 for
  \<^verbatim>\<open>OPTIONS\<close> and with 400 otherwise.
\<close>

theorem route_fallthrough:
  "(Path r \<noteq> [] \<and> hd (Path r) = CHR ''/''
      \<and> Path r \<notin> set [''/data'', ''/echo'', ''/bench'', ''/api'', ''/health'']
      \<and> (Method r = ''CONNECT'' \<or> cleanPath (Path r) = Path r)
      \<longrightarrow> route r = WhoamiHandler
        \<and> finish (whoamiHandler h new_writer r)
            = Response 200
                (identity_report h r
                 @ (case req_Write r of
                      Inr text \<Rightarrow> (if text = [] then [] else [Bytes text])
                    | Inl err \<Rightarrow> [ErrorText err, Bytes [CHR 0x0A]])))
   \<and> (Method r \<noteq> ''CONNECT'' \<and> Path r \<noteq> ''*'' \<and> cleanPath (Path r) \<noteq> Path r
      \<longrightarrow> route r = RedirectHandler (cleanPath (Path r)))
   \<and> (Method r = ''CONNECT'' \<and> Path r \<noteq> ''*'' \<and> (Path r = [] \<or> hd (Path r) \<noteq> CHR ''/'')
      \<longrightarrow> route r = NotFoundHandler)
   \<and> (Path r = ''*''
      \<longrightarrow> route r = (if Method r = ''OPTIONS'' then GlobalOptionsHandler else BadRequestHandler))"
proof (intro conjI impI)
  assume a: "Path r \<noteq> [] \<and> hd (Path r) = CHR ''/''
      \<and> Path r \<notin> set [''/data'', ''/echo'', ''/bench'', ''/api'', ''/health'']
      \<and> (Method r = ''CONNECT'' \<or> cleanPath (Path r) = Path r)"
  then have "Path r \<noteq> ''*''" by auto
  moreover from a have "mux_Handler registrations r = WhoamiHandler"
    by (intro mux_Handler_rooted) simp_all
  ultimately show "route r = WhoamiHandler" by (simp add: route_def)
  show "finish (whoamiHandler h new_writer r)
      = Response 200
          (identity_report h r
           @ (case req_Write r of
                Inr text \<Rightarrow> (if text = [] then [] else [Bytes text])
              | Inl err \<Rightarrow> [ErrorText err, Bytes [CHR 0x0A]]))"
    by (rule whoami_report)
next
  assume a: "Method r \<noteq> ''CONNECT'' \<and> Path r \<noteq> ''*'' \<and> cleanPath (Path r) \<noteq> Path r"
  have "cleanPath (Path r) \<noteq> []" by (simp add: cleanPath_rooted)
  with a show "route r = RedirectHandler (cleanPath (Path r))"
    by (simp add: route_def mux_Handler_def no_slash_redirect)
next
  assume a: "Method r = ''CONNECT'' \<and> Path r \<noteq> ''*'' \<and> (Path r = [] \<or> hd (Path r) \<noteq> CHR ''/'')"
  then have u: "Path r = [] \<or> hd (Path r) \<noteq> CHR ''/''" by simp
  have 1: "mux_match registrations (Path r) = None" using u by (rule mux_match_unrooted)
  have 2: "map_of registrations (Path r) = None" using u by (rule map_of_unrooted)
  have 3: "Path r = [] \<or> map_of registrations (Path r @ ''/'') = None"
    by (cases "Path r = []") (simp_all add: no_slash_redirect)
  from a 1 2 3 show "route r = NotFoundHandler"
    by (auto simp: route_def mux_Handler_def Let_def)
next
  assume "Path r = ''*''"
  then show "route r = (if Method r = ''OPTIONS'' then GlobalOptionsHandler else BadRequestHandler)"
    by (simp add: route_def)
qed

theorem route_fallthrough_witness:
  "route \<lparr>Method = ''GET'', Path = ''/data/x'', Query = [], Body = [],
       RemoteAddr = ''10.0.0.9:4711'', req_Write = Inr ''GET /data/x HTTP/1.1''\<rparr> = WhoamiHandler
   \<and> finish (whoamiHandler \<lparr>name = ''foo'', hostname = ''node1'', addresses = [''127.0.0.1'', ''10.0.0.5'']\<rparr>
       new_writer
       \<lparr>Method = ''GET'', Path = ''/data/x'', Query = [], Body = [],
         RemoteAddr = ''10.0.0.9:4711'', req_Write = Inr ''GET /data/x HTTP/1.1''\<rparr>)
     = Response 200
         [Bytes (''Name: foo'' @ [CHR 0x0A]), Bytes (''Hostname: node1'' @ [CHR 0x0A]),
          Bytes (''IP: 127.0.0.1'' @ [CHR 0x0A]), Bytes (''IP: 10.0.0.5'' @ [CHR 0x0A]),
          Bytes (''RemoteAddr: 10.0.0.9:4711'' @ [CHR 0x0A]), Bytes ''GET /data/x HTTP/1.1'']
   \<and> route \<lparr>Method = ''CONNECT'', Path = ''/x//y'', Query = [], Body = [],
       RemoteAddr = [], req_Write = Inr []\<rparr> = WhoamiHandler
   \<and> route \<lparr>Method = ''GET'', Path = ''/a/./b'', Query = [], Body = [],
       RemoteAddr = [], req_Write = Inr []\<rparr> = RedirectHandler ''/a/b''
   \<and> route \<lparr>Method = ''CONNECT'', Path = ''example.org:443'', Query = [], Body = [],
       RemoteAddr = [], req_Write = Inr []\<rparr> = NotFoundHandler
   \<and> route \<lparr>Method = ''OPTIONS'', Path = ''*'', Query = [], Body = [],
       RemoteAddr = [], req_Write = Inr []\<rparr> = GlobalOptionsHandler"
proof -
  let ?h = "\<lparr>name = ''foo'', hostname = ''node1'', addresses = [''127.0.0.1'', ''10.0.0.5'']\<rparr>"
  let ?r = "\<lparr>Method = ''GET'', Path = ''/data/x'', Query = [], Body = [],
       RemoteAddr = ''10.0.0.9:4711'', req_Write = Inr ''GET /data/x HTTP/1.1''\<rparr>"
  let ?c = "\<lparr>Method = ''CONNECT'', Path = ''/x//y'', Query = [], Body = [],
       RemoteAddr = [], req_Write = Inr []\<rparr>"
  let ?s = "\<lparr>Method = ''GET'', Path = ''/a/./b'', Query = [], Body = [],
       RemoteAddr = [], req_Write = Inr []\<rparr>"
  let ?n = "\<lparr>Method = ''CONNECT'', Path = ''example.org:443'', Query = [], Body = [],
       RemoteAddr = [], req_Write = Inr []\<rparr>"
  let ?o = "\<lparr>Method = ''OPTIONS'', Path = ''*'', Query = [], Body = [],
       RemoteAddr = [], req_Write = Inr []\<rparr>"
  have 1: "Path ?r \<noteq> [] \<and> hd (Path ?r) = CHR ''/''
      \<and> Path ?r \<notin> set [''/data'', ''/echo'', ''/bench'', ''/api'', ''/health'']
      \<and> (Method ?r = ''CONNECT'' \<or> cleanPath (Path ?r) = Path ?r)"
    by (simp add: cleanPath_def Clean_def clean_step_def)
  have 2: "Path ?c \<noteq> [] \<and> hd (Path ?c) = CHR ''/''
      \<and> Path ?c \<notin> set [''/data'', ''/echo'', ''/bench'', ''/api'', ''/health'']
      \<and> (Method ?c = ''CONNECT'' \<or> cleanPath (Path ?c) = Path ?c)"
    by simp
  have 3: "cleanPath (Path ?s) = ''/a/b''" by (simp add: cleanPath_def Clean_def clean_step_def)
  then have 4: "Method ?s \<noteq> ''CONNECT'' \<and> Path ?s \<noteq> ''*'' \<and> cleanPath (Path ?s) \<noteq> Path ?s"
    by simp
  have 5: "Method ?n = ''CONNECT'' \<and> Path ?n \<noteq> ''*''
      \<and> (Path ?n = [] \<or> hd (Path ?n) \<noteq> CHR ''/'')" by simp
  have 6: "Path ?o = ''*''" by simp
  from 1 route_fallthrough [of ?r ?h]
  have a: "route ?r = WhoamiHandler"
    "finish (whoamiHandler ?h new_writer ?r)
      = Response 200
          (identity_report ?h ?r
           @ (case req_Write ?r of
                Inr text \<Rightarrow> (if text = [] then [] else [Bytes text])
              | Inl err \<Rightarrow> [ErrorText err, Bytes [CHR 0x0A]]))" by blast+
  from 2 route_fallthrough [of ?c ?h] have b: "route ?c = WhoamiHandler" by blast
  from 4 route_fallthrough [of ?s ?h] have "route ?s = RedirectHandler (cleanPath (Path ?s))"
    by blast
  then have c: "route ?s = RedirectHandler ''/a/b''" using 3 by simp
  from 5 route_fallthrough [of ?n ?h] have d: "route ?n = NotFoundHandler" by blast
  from 6 route_fallthrough [of ?o ?h] have e: "route ?o = GlobalOptionsHandler" by simp
  from a(2) have rep: "finish (whoamiHandler ?h new_writer ?r)
     = Response 200
         [Bytes (''Name: foo'' @ [CHR 0x0A]), Bytes (''Hostname: node1'' @ [CHR 0x0A]),
          Bytes (''IP: 127.0.0.1'' @ [CHR 0x0A]), Bytes (''IP: 10.0.0.5'' @ [CHR 0x0A]),
          Bytes (''RemoteAddr: 10.0.0.9:4711'' @ [CHR 0x0A]), Bytes ''GET /data/x HTTP/1.1'']"
    by (simp add: identity_report_def)
  from a(1) rep b c d e show ?thesis by (intro conjI)
qed

text \<open>
  The claim as the specification states it, for every path that is none of the five,
  fails three times: \<^verbatim>\<open>/x//y\<close> is answered by a redirect to \<^verbatim>\<open>/x/y\<close>, not by the whoami
  handler; a \<^verbatim>\<open>CONNECT\<close> to \<^verbatim>\<open>example.org:443\<close> gets the not-found handler, a 404;
  \<^verbatim>\<open>GET *\<close> is answered with 400.
\<close>

theorem route_fallthrough_counterexample:
  "route \<lparr>Method = ''GET'', Path = ''/x//y'', Query = [], Body = []\<rparr> = RedirectHandler ''/x/y''
   \<and> route \<lparr>Method = ''GET'', Path = ''/x//y'', Query = [], Body = []\<rparr> \<noteq> WhoamiHandler
   \<and> route \<lparr>Method = ''CONNECT'', Path = ''example.org:443'', Query = [], Body = []\<rparr>
     = NotFoundHandler
   \<and> route \<lparr>Method = ''GET'', Path = ''*'', Query = [], Body = []\<rparr> = BadRequestHandler"
  by (simp add: route_def mux_Handler_def mux_match_def registrations_def cleanPath_def Clean_def
      clean_step_def)

end
